theory Spec2Isabelle
  imports Complex_Main
begin

section \<open>JavaScript values the Ollama handler works with\<close>

text \<open>
  The source file \<^verbatim>\<open>src/api/providers/ollama.ts\<close> holds two versions of the class
  \<^verbatim>\<open>OllamaHandler\<close>. The first (lines 32 to 108) checks the model id, catches the
  failure of the request and rewrites it; it is called variant 1 below. The second
  (lines 117 to 233) substitutes an empty model id, supports a non-streaming mode and
  wraps the whole body in one \<^verbatim>\<open>try\<close>; it is called variant 2.

  Both are asynchronous generators. A run of a generator is modelled by the list of the
  chunks it yields when it is consumed to its end, the error it finally throws (if any),
  and the timer and network effects it causes, in program order. Console output is left
  out of the model. The decorator \<^verbatim>\<open>withRetry\<close> of variant 2 is declared in another
  file; the model is the method body it is applied to.
\<close>

subsection \<open>Numbers and their text\<close>

text \<open>
  Token counts and time budgets are integers here. A context size is any value of the
  type number, since it comes out of \<^verbatim>\<open>Number(...)\<close>: \<open>NaN\<close>, a finite number, or one
  of the two infinities.
\<close>

datatype js_number = NaN | Num real | PosInfinity | NegInfinity

text \<open>
  The global function \<^verbatim>\<open>Number\<close> on strings is a parameter of the model, written
  \<open>toNumber\<close>: the theorems hold for every function from strings to numbers, and so for
  JavaScript's. \<^verbatim>\<open>Number(x)\<close> on an optional string: \<^verbatim>\<open>Number(undefined)\<close> is \<open>NaN\<close>.
\<close>

definition Number_opt :: "(string \<Rightarrow> js_number) \<Rightarrow> string option \<Rightarrow> js_number" where
  "Number_opt toNumber x = (case x of None \<Rightarrow> NaN | Some s \<Rightarrow> toNumber s)"

text \<open>\<^verbatim>\<open>n || d\<close> on a number: \<open>NaN\<close> and zero are falsy, every other number is truthy.\<close>

definition num_or :: "js_number \<Rightarrow> js_number \<Rightarrow> js_number" where
  "num_or n d =
     (case n of
        NaN \<Rightarrow> d
      | Num k \<Rightarrow> if k = 0 then d else Num k
      | PosInfinity \<Rightarrow> PosInfinity
      | NegInfinity \<Rightarrow> NegInfinity)"

text \<open>\<^verbatim>\<open>x || d\<close> and \<^verbatim>\<open>x ?? d\<close> on an optional integer field.\<close>

definition int_or :: "int option \<Rightarrow> int \<Rightarrow> int" where
  "int_or x d = (case x of None \<Rightarrow> d | Some k \<Rightarrow> if k = 0 then d else k)"

definition int_nullish :: "int option \<Rightarrow> int \<Rightarrow> int" where
  "int_nullish x d = (case x of None \<Rightarrow> d | Some k \<Rightarrow> k)"

text \<open>\<^verbatim>\<open>x || d\<close> and \<^verbatim>\<open>x ?? d\<close> on an optional string: the empty string is falsy.\<close>

definition str_or :: "string option \<Rightarrow> string \<Rightarrow> string" where
  "str_or x d = (case x of None \<Rightarrow> d | Some s \<Rightarrow> if s = [] then d else s)"

definition str_nullish :: "string option \<Rightarrow> string \<Rightarrow> string" where
  "str_nullish x d = (case x of None \<Rightarrow> d | Some s \<Rightarrow> s)"

definition truthy_str :: "string option \<Rightarrow> bool" where
  "truthy_str x = (case x of None \<Rightarrow> False | Some s \<Rightarrow> s \<noteq> [])"

text \<open>Decimal text of a natural number and of an integer, as a template literal prints it.\<close>

definition digit_char :: "nat \<Rightarrow> char" where
  "digit_char d = ''0123456789'' ! d"

fun show_nat :: "nat \<Rightarrow> string" where
  "show_nat n = (if n < 10 then [digit_char n] else show_nat (n div 10) @ [digit_char (n mod 10)])"

declare show_nat.simps [simp del]

definition show_int :: "int \<Rightarrow> string" where
  "show_int i = (if i < 0 then CHR ''-'' # show_nat (nat (- i)) else show_nat (nat i))"

text \<open>
  The text of \<^verbatim>\<open>timeoutMs / 1000\<close> for a whole number of milliseconds: the quotient,
  and when the division leaves a remainder, a point and the three decimals of the
  remainder without their trailing zeros (1500 gives 1.5). This is what JavaScript
  prints for budgets below \<open>10 ^ 15\<close> ms.
\<close>

definition frac_digits :: "nat \<Rightarrow> string" where
  "frac_digits r =
     rev (dropWhile (\<lambda>c. c = CHR ''0'')
       (rev [digit_char (r div 100), digit_char ((r div 10) mod 10), digit_char (r mod 10)]))"

definition show_thousandths :: "nat \<Rightarrow> string" where
  "show_thousandths n =
     (if n mod 1000 = 0 then show_nat (n div 1000)
      else show_nat (n div 1000) @ CHR ''.'' # frac_digits (n mod 1000))"

definition show_seconds :: "int \<Rightarrow> string" where
  "show_seconds ms =
     (if ms < 0 then CHR ''-'' # show_thousandths (nat (- ms)) else show_thousandths (nat ms))"

text \<open>\<^verbatim>\<open>s.includes(p)\<close>: the text \<open>p\<close> occurs in \<open>s\<close>.\<close>

fun starts_with :: "string \<Rightarrow> string \<Rightarrow> bool" where
  "starts_with s [] = True"
| "starts_with [] (p # ps) = False"
| "starts_with (c # cs) (p # ps) = (c = p \<and> starts_with cs ps)"

fun js_includes :: "string \<Rightarrow> string \<Rightarrow> bool" where
  "js_includes [] p = (p = [])"
| "js_includes (c # cs) p = (starts_with (c # cs) p \<or> js_includes cs p)"

subsection \<open>Thrown values\<close>

text \<open>
  A thrown value is an object with the optional properties the handler reads:
  \<^verbatim>\<open>message\<close>, \<^verbatim>\<open>code\<close>, \<^verbatim>\<open>status\<close>, \<^verbatim>\<open>statusCode\<close> and \<^verbatim>\<open>cause\<close>. The last field is the
  text \<^verbatim>\<open>String(value)\<close>, which a template literal prints when the message is missing.
\<close>

datatype js_error =
  JsError (err_message: "string option") (err_code: "string option")
    (err_status: "int option") (err_statusCode: "int option")
    (err_cause: "js_error option") (err_text: string)

text \<open>\<^verbatim>\<open>new Error(m)\<close>\<close>

definition new_Error :: "string \<Rightarrow> js_error" where
  "new_Error m =
     JsError (Some m) None None None None (if m = [] then ''Error'' else ''Error: '' @ m)"

subsection \<open>Configuration, requests and responses\<close>

text \<open>The fields of \<^verbatim>\<open>ApiHandlerOptions\<close> that the handler reads.\<close>

record api_handler_options =
  ollamaBaseUrl :: "string option"
  ollamaModelId :: "string option"
  requestTimeoutMs :: "int option"
  ollamaApiOptionsCtxNum :: "string option"
  ollamaUseStreaming :: "bool option"

text \<open>A message in the transport's format.\<close>

record ollama_message =
  role :: string
  content :: string

text \<open>
  The argument of \<^verbatim>\<open>client.chat\<close>. Variant 1 passes no \<^verbatim>\<open>options\<close> object, so
  \<open>num_ctx\<close> is optional.
\<close>

record chat_request =
  model :: string
  messages :: "ollama_message list"
  stream :: bool
  num_ctx :: "js_number option"

text \<open>
  A response object, or one chunk of a streamed response. The object \<^verbatim>\<open>message\<close> is
  always there, as the type \<^verbatim>\<open>ChatResponse\<close> has it; \<open>message_content\<close> is
  \<^verbatim>\<open>message.content\<close> when its type is string and \<open>None\<close> otherwise. A counter is
  \<open>None\<close> when it is undefined.
\<close>

record chat_response =
  message_content :: "string option"
  eval_count :: "int option"
  prompt_eval_count :: "int option"

text \<open>
  A streamed response is finite: it delivers its chunks and then either ends or throws.
\<close>

datatype chat_stream = Stream (chunks: "chat_response list") (fault: "js_error option")

text \<open>
  How the promise returned by \<^verbatim>\<open>client.chat\<close> fares in the race against the timer:
  it is fulfilled or rejected before the timer fires, or it is not settled by then.
\<close>

datatype 'a settled = Fulfilled 'a | Rejected js_error | NotBeforeTimer

text \<open>
  The transport client: \<^verbatim>\<open>chat\<close> with \<^verbatim>\<open>stream: true\<close> promises a stream, with
  \<^verbatim>\<open>stream: false\<close> a single response.
\<close>

record ollama_client =
  chat_streaming :: "chat_request \<Rightarrow> chat_stream settled"
  chat_single :: "chat_request \<Rightarrow> chat_response settled"

text \<open>The object \<^verbatim>\<open>this\<close>: the two fields of the class.\<close>

record ollama_handler =
  options :: api_handler_options
  client :: ollama_client

text \<open>The chunks of \<^verbatim>\<open>ApiStream\<close>: text, or usage with input and output tokens.\<close>

datatype api_chunk = Text string | Usage int int

text \<open>
  What a run does besides yielding: it starts a timer of so many milliseconds, it calls
  \<^verbatim>\<open>client.chat\<close> with a request.
\<close>

datatype effect = SetTimeout int | Chat chat_request

record run =
  effects :: "effect list"
  emitted :: "api_chunk list"
  failure :: "js_error option"

text \<open>
  The fields of \<^verbatim>\<open>ModelInfo\<close> are declared in another file; only \<open>contextWindow\<close>
  is named by the handler. The constant \<^verbatim>\<open>openAiModelInfoSaneDefaults\<close> is declared
  there too and is a parameter of \<open>getModel\<close> below.
\<close>

record 'r model_info =
  contextWindow :: js_number
  other_fields :: 'r

text \<open>
  The result of \<open>getModel\<close>. The field \<^verbatim>\<open>id\<close> is declared a string; in variant 1 it
  is undefined at run time when no model id is configured, so the type of the field is a
  parameter: an optional string in variant 1, a string in variant 2.
\<close>

record ('i, 'r) model_descriptor =
  descriptor_id :: 'i
  info :: "'r model_info"

section \<open>The handler\<close>

subsection \<open>The timer and the race\<close>

definition timeout_message :: "int \<Rightarrow> string" where
  "timeout_message timeoutMs =
     ''Ollama request timed out after '' @ show_seconds timeoutMs @ '' seconds''"

text \<open>
  \<^verbatim>\<open>await Promise.race([apiPromise, timeoutPromise])\<close>: the value of the request when
  it is fulfilled first, its error when it is rejected first, and the timer's error
  otherwise.
\<close>

definition race :: "'a settled \<Rightarrow> int \<Rightarrow> js_error + 'a" where
  "race apiPromise timeoutMs =
     (case apiPromise of
        Fulfilled x \<Rightarrow> Inr x
      | Rejected err \<Rightarrow> Inl err
      | NotBeforeTimer \<Rightarrow> Inl (new_Error (timeout_message timeoutMs)))"

text \<open>
  The message list of both variants (lines 46 and 128). The converter
  \<^verbatim>\<open>convertToOllamaMessages\<close> is declared in another file and is a parameter.
\<close>

definition ollamaMessages ::
  "('m list \<Rightarrow> ollama_message list) \<Rightarrow> string \<Rightarrow> 'm list \<Rightarrow> ollama_message list" where
  "ollamaMessages convertToOllamaMessages systemPrompt msgs =
     \<lparr>role = ''system'', content = systemPrompt\<rparr> # convertToOllamaMessages msgs"

subsection \<open>Variant 1\<close>

text \<open>The body of the \<^verbatim>\<open>for await\<close> loop (lines 81 to 92) and the loop itself.\<close>

definition yield_chunk1 :: "chat_response \<Rightarrow> api_chunk list" where
  "yield_chunk1 chunk =
     (case message_content chunk of Some s \<Rightarrow> [Text s] | None \<Rightarrow> []) @
     (if eval_count chunk \<noteq> None \<or> prompt_eval_count chunk \<noteq> None
      then [Usage (int_nullish (prompt_eval_count chunk) 0) (int_nullish (eval_count chunk) 0)]
      else [])"

primrec process_stream1 :: "chat_response list \<Rightarrow> api_chunk list" where
  "process_stream1 [] = []"
| "process_stream1 (chunk # rest) = yield_chunk1 chunk @ process_stream1 rest"

text \<open>
  The \<^verbatim>\<open>catch\<close> block of lines 64 to 77: the error that is thrown instead. The dash
  of the message is U+2014, three bytes in UTF-8.
\<close>

definition dash :: string where
  "dash = [CHR 0xE2, CHR 0x80, CHR 0x94]"

definition catch1 :: "ollama_handler \<Rightarrow> js_error \<Rightarrow> js_error" where
  "catch1 this err =
     (let cause = (case err_cause err of Some c \<Rightarrow> c | None \<Rightarrow> err)
      in if truthy_str (err_code cause)
         then new_Error
           (''Could not reach Ollama at '' @
            str_nullish (ollamaBaseUrl (options this)) ''http://localhost:11434'' @
            '' '' @ dash @ '' '' @ str_nullish (err_code cause) [] @ '': '' @
            str_nullish (err_message cause) (err_text cause))
         else
           let statusCode =
             (case err_status err of
                Some s \<Rightarrow> show_int s
              | None \<Rightarrow>
                  (case err_statusCode err of Some s \<Rightarrow> show_int s | None \<Rightarrow> ''unknown''))
           in new_Error
             (''Ollama API error ('' @ statusCode @ ''): '' @
              str_nullish (err_message err) (err_text err)))"

text \<open>The request of lines 55 to 59.\<close>

definition request1 ::
  "('m list \<Rightarrow> ollama_message list) \<Rightarrow> ollama_handler \<Rightarrow> string \<Rightarrow> 'm list \<Rightarrow> chat_request" where
  "request1 convertToOllamaMessages this systemPrompt msgs =
     \<lparr>model = str_nullish (ollamaModelId (options this)) [],
      messages = ollamaMessages convertToOllamaMessages systemPrompt msgs,
      stream = True, num_ctx = None\<rparr>"

definition createMessage1 ::
  "('m list \<Rightarrow> ollama_message list) \<Rightarrow> ollama_handler \<Rightarrow> string \<Rightarrow> 'm list \<Rightarrow> run" where
  "createMessage1 convertToOllamaMessages this systemPrompt msgs =
     (if \<not> truthy_str (ollamaModelId (options this))
      then \<lparr>effects = [], emitted = [],
            failure = Some (new_Error ''Ollama model id is required'')\<rparr>
      else
        let timeoutMs = int_nullish (requestTimeoutMs (options this)) 30000;
            request = request1 convertToOllamaMessages this systemPrompt msgs;
            done = [SetTimeout timeoutMs, Chat request]
        in case race (chat_streaming (client this) request) timeoutMs of
             Inl err \<Rightarrow> \<lparr>effects = done, emitted = [], failure = Some (catch1 this err)\<rparr>
           | Inr s \<Rightarrow>
               \<lparr>effects = done, emitted = process_stream1 (chunks s), failure = fault s\<rparr>)"

text \<open>
  \<^verbatim>\<open>getModel\<close> of variant 1 (lines 96 to 107). The assertion \<^verbatim>\<open>!\<close> of line 97 is
  erased at run time: the id is the configured one, or undefined.
\<close>

definition getModel1 ::
  "(string \<Rightarrow> js_number) \<Rightarrow> 'r model_info \<Rightarrow> ollama_handler \<Rightarrow>
     (string option, 'r) model_descriptor" where
  "getModel1 toNumber openAiModelInfoSaneDefaults this =
     \<lparr>descriptor_id = ollamaModelId (options this),
      info =
        (if truthy_str (ollamaApiOptionsCtxNum (options this))
         then openAiModelInfoSaneDefaults
           \<lparr>contextWindow :=
              num_or (Number_opt toNumber (ollamaApiOptionsCtxNum (options this)))
                (Num 32768)\<rparr>
         else openAiModelInfoSaneDefaults)\<rparr>"

subsection \<open>Variant 2\<close>

text \<open>\<^verbatim>\<open>getModel\<close> of variant 2 (lines 225 to 232).\<close>

definition getModel2 ::
  "(string \<Rightarrow> js_number) \<Rightarrow> 'r model_info \<Rightarrow> ollama_handler \<Rightarrow>
     (string, 'r) model_descriptor" where
  "getModel2 toNumber openAiModelInfoSaneDefaults this =
     \<lparr>descriptor_id = str_or (ollamaModelId (options this)) [],
      info =
        (if truthy_str (ollamaApiOptionsCtxNum (options this))
         then openAiModelInfoSaneDefaults
           \<lparr>contextWindow :=
              num_or (Number_opt toNumber (ollamaApiOptionsCtxNum (options this)))
                (Num 32768)\<rparr>
         else openAiModelInfoSaneDefaults)\<rparr>"

text \<open>The body of the loop (lines 157 to 171), also run once on a single response.\<close>

definition yield_chunk2 :: "chat_response \<Rightarrow> api_chunk list" where
  "yield_chunk2 chunk =
     (case message_content chunk of Some s \<Rightarrow> [Text s] | None \<Rightarrow> []) @
     (if eval_count chunk \<noteq> None \<or> prompt_eval_count chunk \<noteq> None
      then [Usage (int_or (prompt_eval_count chunk) 0) (int_or (eval_count chunk) 0)]
      else [])"

primrec process_stream2 :: "chat_response list \<Rightarrow> api_chunk list" where
  "process_stream2 [] = []"
| "process_stream2 (chunk # rest) = yield_chunk2 chunk @ process_stream2 rest"

text \<open>The inner \<^verbatim>\<open>catch\<close> (lines 173 to 176) around the loop.\<close>

definition stream_catch2 :: "js_error \<Rightarrow> js_error" where
  "stream_catch2 streamError =
     new_Error (''Ollama stream processing error: '' @
                str_or (err_message streamError) ''Unknown error'')"

text \<open>The outer \<^verbatim>\<open>catch\<close> (lines 209 to 222) around the whole body.\<close>

definition catch2 :: "ollama_handler \<Rightarrow> js_error \<Rightarrow> js_error" where
  "catch2 this error =
     (if truthy_str (err_message error) \<and>
         js_includes (str_nullish (err_message error) []) ''timed out''
      then new_Error (timeout_message (int_or (requestTimeoutMs (options this)) 30000))
      else error)"

text \<open>Line 138: streaming is on unless the flag is set to false.\<close>

definition useStreaming :: "ollama_handler \<Rightarrow> bool" where
  "useStreaming this =
     (case ollamaUseStreaming (options this) of None \<Rightarrow> True | Some b \<Rightarrow> b)"

text \<open>
  The request of lines 142 to 149 and 179 to 186; the two differ in \<^verbatim>\<open>stream\<close> only.
\<close>

definition request2 ::
  "('m list \<Rightarrow> ollama_message list) \<Rightarrow> (string \<Rightarrow> js_number) \<Rightarrow> 'r model_info \<Rightarrow>
     ollama_handler \<Rightarrow> string \<Rightarrow> 'm list \<Rightarrow> bool \<Rightarrow> chat_request" where
  "request2 convertToOllamaMessages toNumber defaults this systemPrompt msgs streaming =
     \<lparr>model = descriptor_id (getModel2 toNumber defaults this),
      messages = ollamaMessages convertToOllamaMessages systemPrompt msgs,
      stream = streaming,
      num_ctx =
        Some (num_or (Number_opt toNumber (ollamaApiOptionsCtxNum (options this)))
                (Num 32768))\<rparr>"

definition createMessage2 ::
  "('m list \<Rightarrow> ollama_message list) \<Rightarrow> (string \<Rightarrow> js_number) \<Rightarrow> 'r model_info \<Rightarrow>
     ollama_handler \<Rightarrow> string \<Rightarrow> 'm list \<Rightarrow> run" where
  "createMessage2 convertToOllamaMessages toNumber defaults this systemPrompt msgs =
     (let timeoutMs = int_or (requestTimeoutMs (options this)) 60000;
          request =
            request2 convertToOllamaMessages toNumber defaults this systemPrompt msgs
              (useStreaming this);
          done = [SetTimeout timeoutMs, Chat request];
          tried =
            (if useStreaming this
             then (case race (chat_streaming (client this) request) timeoutMs of
                     Inl err \<Rightarrow> \<lparr>effects = done, emitted = [], failure = Some err\<rparr>
                   | Inr s \<Rightarrow>
                       \<lparr>effects = done, emitted = process_stream2 (chunks s),
                        failure = map_option stream_catch2 (fault s)\<rparr>)
             else (case race (chat_single (client this) request) timeoutMs of
                     Inl err \<Rightarrow> \<lparr>effects = done, emitted = [], failure = Some err\<rparr>
                   | Inr response \<Rightarrow>
                       \<lparr>effects = done, emitted = yield_chunk2 response, failure = None\<rparr>))
      in tried\<lparr>failure := map_option (catch2 this) (failure tried)\<rparr>)"

subsection \<open>Example values\<close>

text \<open>
  Concrete values at which the theorems below are instantiated: a value for the parameter
  \<^verbatim>\<open>openAiModelInfoSaneDefaults\<close>, a converter that turns each text into a user
  message, a configuration that sets the model id only, and a transport client that
  answers every request the same way.
\<close>

definition example_defaults :: "unit model_info" where
  "example_defaults = \<lparr>contextWindow = Num 128000, other_fields = ()\<rparr>"

text \<open>
  A function for the parameter \<open>toNumber\<close> in the examples. It reads an optionally
  signed run of at most fifteen decimal digits, with white space around it, and the empty
  text, as \<^verbatim>\<open>Number\<close> does; these values are exact in JavaScript. To every other
  text it gives \<open>NaN\<close>, which is \<^verbatim>\<open>Number\<close>'s answer for a text that is no numeric
  literal, such as "abc", and is not its answer for the literals left out here (longer
  runs of digits, fractions, exponents, radix prefixes, \<^verbatim>\<open>Infinity\<close>). The examples
  apply it to "131072", "-5" and "abc" only.
\<close>

definition is_space :: "char \<Rightarrow> bool" where
  "is_space c = (c \<in> set [CHR '' '', CHR 0x09, CHR 0x0A, CHR 0x0B, CHR 0x0C, CHR 0x0D])"

definition is_digit :: "char \<Rightarrow> bool" where
  "is_digit c = (c \<in> set ''0123456789'')"

definition digit_val :: "char \<Rightarrow> nat" where
  "digit_val c = of_char c - 48"

definition trim :: "string \<Rightarrow> string" where
  "trim s = rev (dropWhile is_space (rev (dropWhile is_space s)))"

definition dec_value :: "string \<Rightarrow> nat" where
  "dec_value s = foldl (\<lambda>a c. 10 * a + digit_val c) 0 s"

definition short_digits :: "string \<Rightarrow> bool" where
  "short_digits s = (s \<noteq> [] \<and> length s \<le> 15 \<and> list_all is_digit s)"

definition literal_Number :: "string \<Rightarrow> js_number" where
  "literal_Number s =
     (case trim s of
        [] \<Rightarrow> Num 0
      | c # r \<Rightarrow>
          if c = CHR ''-'' then (if short_digits r then Num (- real (dec_value r)) else NaN)
          else if c = CHR ''+'' then (if short_digits r then Num (real (dec_value r)) else NaN)
          else if short_digits (c # r) then Num (real (dec_value (c # r)))
          else NaN)"

definition example_convert :: "string list \<Rightarrow> ollama_message list" where
  "example_convert msgs = map (\<lambda>t. \<lparr>role = ''user'', content = t\<rparr>) msgs"

definition example_options :: api_handler_options where
  "example_options =
     \<lparr>ollamaBaseUrl = None, ollamaModelId = Some ''llama3'', requestTimeoutMs = None,
      ollamaApiOptionsCtxNum = None, ollamaUseStreaming = None\<rparr>"

definition fixed_client :: "chat_stream settled \<Rightarrow> chat_response settled \<Rightarrow> ollama_client" where
  "fixed_client s r = \<lparr>chat_streaming = (\<lambda>request. s), chat_single = (\<lambda>request. r)\<rparr>"

definition example_handler ::
  "api_handler_options \<Rightarrow> chat_stream settled \<Rightarrow> chat_response settled \<Rightarrow> ollama_handler" where
  "example_handler opts s r = \<lparr>options = opts, client = fixed_client s r\<rparr>"

text \<open>
  The streamed response of the specification's example: a piece with content "a", a piece
  with content "b", and a final piece that carries the counters and no content.
\<close>

definition example_stream :: chat_stream where
  "example_stream =
     Stream [\<lparr>message_content = Some ''a'', eval_count = None, prompt_eval_count = None\<rparr>,
             \<lparr>message_content = Some ''b'', eval_count = None, prompt_eval_count = None\<rparr>,
             \<lparr>message_content = None, eval_count = Some 3, prompt_eval_count = Some 5\<rparr>] None"

text \<open>A configuration with no model id, and one that turns streaming off.\<close>

definition options_without_model :: api_handler_options where
  "options_without_model = example_options\<lparr>ollamaModelId := None\<rparr>"

definition options_single :: api_handler_options where
  "options_single = example_options\<lparr>ollamaUseStreaming := Some False\<rparr>"

text \<open>A piece whose content is the empty string and which reports one counter.\<close>

definition empty_piece :: chat_response where
  "empty_piece = \<lparr>message_content = Some [], eval_count = Some 7, prompt_eval_count = None\<rparr>"

text \<open>
  A request that fails at the network level, as \<^verbatim>\<open>fetch\<close> reports a refused connection:
  the error has a generic message and a cause that carries the code.
\<close>

definition refused :: js_error where
  "refused =
     JsError (Some ''fetch failed'') None None None
       (Some (JsError (Some ''connect ECONNREFUSED 127.0.0.1:11434'') (Some ''ECONNREFUSED'')
                None None None ''Error: connect ECONNREFUSED 127.0.0.1:11434''))
       ''TypeError: fetch failed''"

text \<open>A stream that delivers one piece and then fails with a message about a time-out.\<close>

definition stalled_stream :: chat_stream where
  "stalled_stream =
     Stream [\<lparr>message_content = Some ''a'', eval_count = None, prompt_eval_count = None\<rparr>]
       (Some (new_Error ''socket timed out''))"

text \<open>A stream that delivers one piece and then fails with another message.\<close>

definition broken_stream :: chat_stream where
  "broken_stream =
     Stream [\<lparr>message_content = Some ''a'', eval_count = None, prompt_eval_count = None\<rparr>]
       (Some (new_Error ''socket hang up''))"

text \<open>A configuration with a context size.\<close>

definition options_with_ctx :: "string \<Rightarrow> api_handler_options" where
  "options_with_ctx s = example_options\<lparr>ollamaApiOptionsCtxNum := Some s\<rparr>"

definition handler_with_ctx :: "string \<Rightarrow> ollama_handler" where
  "handler_with_ctx s = example_handler (options_with_ctx s) NotBeforeTimer NotBeforeTimer"

subsection \<open>Observations on a run\<close>

text \<open>The requests a run has passed to \<^verbatim>\<open>client.chat\<close>, in order.\<close>

primrec chat_requests :: "effect list \<Rightarrow> chat_request list" where
  "chat_requests [] = []"
| "chat_requests (e # es) =
     (case e of Chat request \<Rightarrow> request # chat_requests es | SetTimeout t \<Rightarrow> chat_requests es)"

text \<open>
  The specification's account of what one piece of a response produces: a text chunk when
  the piece bears content, then a usage chunk when the server reports a counter, a missing
  counter being zero.
\<close>

definition spec_chunks :: "chat_response \<Rightarrow> api_chunk list" where
  "spec_chunks piece =
     (case message_content piece of None \<Rightarrow> [] | Some s \<Rightarrow> [Text s]) @
     (case (prompt_eval_count piece, eval_count piece) of
        (None, None) \<Rightarrow> []
      | (None, Some e) \<Rightarrow> [Usage 0 e]
      | (Some p, None) \<Rightarrow> [Usage p 0]
      | (Some p, Some e) \<Rightarrow> [Usage p e])"

section \<open>Properties\<close>

subsection \<open>The loop body and the loop\<close>

lemma int_or_zero: "int_or x 0 = int_nullish x 0"
  by (simp add: int_or_def int_nullish_def split: option.splits)

lemma yield_chunk2_eq: "yield_chunk2 c = yield_chunk1 c"
  by (simp add: yield_chunk2_def yield_chunk1_def int_or_zero)

lemma process_stream2_eq: "process_stream2 cs = process_stream1 cs"
  by (induction cs) (simp_all add: yield_chunk2_eq)

lemma process_stream1_append:
  "process_stream1 (xs @ ys) = process_stream1 xs @ process_stream1 ys"
  by (induction xs) simp_all

lemma yield_chunk1_spec: "yield_chunk1 c = spec_chunks c"
  by (simp add: yield_chunk1_def spec_chunks_def int_nullish_def split: option.splits)

lemma process_stream1_spec: "process_stream1 cs = concat (map spec_chunks cs)"
  by (induction cs) (simp_all add: yield_chunk1_spec)

subsection \<open>The outcomes of a call, case by case\<close>

lemma createMessage1_no_model:
  "\<not> truthy_str (ollamaModelId (options this)) \<Longrightarrow>
   createMessage1 conv this sp ms =
     \<lparr>effects = [], emitted = [], failure = Some (new_Error ''Ollama model id is required'')\<rparr>"
  by (simp add: createMessage1_def)

lemma createMessage1_fulfilled:
  "truthy_str (ollamaModelId (options this)) \<Longrightarrow>
   chat_streaming (client this) (request1 conv this sp ms) = Fulfilled s \<Longrightarrow>
   createMessage1 conv this sp ms =
     \<lparr>effects = [SetTimeout (int_nullish (requestTimeoutMs (options this)) 30000),
                 Chat (request1 conv this sp ms)],
      emitted = process_stream1 (chunks s), failure = fault s\<rparr>"
  by (simp add: createMessage1_def Let_def race_def)

lemma createMessage1_rejected:
  "truthy_str (ollamaModelId (options this)) \<Longrightarrow>
   chat_streaming (client this) (request1 conv this sp ms) = Rejected err \<Longrightarrow>
   createMessage1 conv this sp ms =
     \<lparr>effects = [SetTimeout (int_nullish (requestTimeoutMs (options this)) 30000),
                 Chat (request1 conv this sp ms)],
      emitted = [], failure = Some (catch1 this err)\<rparr>"
  by (simp add: createMessage1_def Let_def race_def)

lemma createMessage2_effects:
  "effects (createMessage2 conv num d this sp ms) =
     [SetTimeout (int_or (requestTimeoutMs (options this)) 60000),
      Chat (request2 conv num d this sp ms (useStreaming this))]"
  by (simp add: createMessage2_def Let_def split: sum.splits)

lemma createMessage2_stream_fulfilled:
  "useStreaming this \<Longrightarrow>
   chat_streaming (client this) (request2 conv num d this sp ms True) = Fulfilled s \<Longrightarrow>
   emitted (createMessage2 conv num d this sp ms) = process_stream2 (chunks s) \<and>
   failure (createMessage2 conv num d this sp ms) =
     map_option (\<lambda>e. catch2 this (stream_catch2 e)) (fault s)"
  by (simp add: createMessage2_def Let_def race_def option.map_comp comp_def)

lemma createMessage2_stream_rejected:
  "useStreaming this \<Longrightarrow>
   chat_streaming (client this) (request2 conv num d this sp ms True) = Rejected err \<Longrightarrow>
   emitted (createMessage2 conv num d this sp ms) = [] \<and>
   failure (createMessage2 conv num d this sp ms) = Some (catch2 this err)"
  by (simp add: createMessage2_def Let_def race_def)

lemma createMessage2_single_fulfilled:
  "\<not> useStreaming this \<Longrightarrow>
   chat_single (client this) (request2 conv num d this sp ms False) = Fulfilled response \<Longrightarrow>
   emitted (createMessage2 conv num d this sp ms) = yield_chunk2 response \<and>
   failure (createMessage2 conv num d this sp ms) = None"
  by (simp add: createMessage2_def Let_def race_def)

lemma createMessage2_single_rejected:
  "\<not> useStreaming this \<Longrightarrow>
   chat_single (client this) (request2 conv num d this sp ms False) = Rejected err \<Longrightarrow>
   emitted (createMessage2 conv num d this sp ms) = [] \<and>
   failure (createMessage2 conv num d this sp ms) = Some (catch2 this err)"
  by (simp add: createMessage2_def Let_def race_def)

lemmas example_simps =
  example_handler_def example_options_def fixed_client_def example_convert_def
  truthy_str_def useStreaming_def

subsection \<open>Streamed responses\<close>

text \<open>
  Claim C1. When the request is fulfilled with a stream that delivers its pieces and ends,
  both variants emit, piece by piece and in order, a text chunk for a piece whose content
  is a string and then a usage chunk for a piece that reports a counter, a missing counter
  being zero, and they end without an error. For the pieces "a", "b" and final counters
  \<open>prompt_eval_count = 5\<close>, \<open>eval_count = 3\<close> (the final piece has no string
  content) the output is exactly \<open>Text a, Text b, Usage 5 3\<close>.
\<close>

theorem createMessage_stream_output:
  assumes "truthy_str (ollamaModelId (options this))"
    and "useStreaming this"
    and "chat_streaming (client this) (request1 conv this sp ms) = Fulfilled (Stream pieces None)"
    and "chat_streaming (client this) (request2 conv num d this sp ms True) =
           Fulfilled (Stream pieces None)"
  shows "emitted (createMessage1 conv this sp ms) = concat (map spec_chunks pieces) \<and>
         failure (createMessage1 conv this sp ms) = None \<and>
         emitted (createMessage2 conv num d this sp ms) = concat (map spec_chunks pieces) \<and>
         failure (createMessage2 conv num d this sp ms) = None \<and>
         (pieces = chunks example_stream \<longrightarrow>
            emitted (createMessage1 conv this sp ms) = [Text ''a'', Text ''b'', Usage 5 3] \<and>
            emitted (createMessage2 conv num d this sp ms) = [Text ''a'', Text ''b'', Usage 5 3])"
proof -
  have one: "emitted (createMessage1 conv this sp ms) = concat (map spec_chunks pieces)"
    "failure (createMessage1 conv this sp ms) = None"
    using createMessage1_fulfilled [OF assms(1) assms(3)] by (simp_all add: process_stream1_spec)
  have two: "emitted (createMessage2 conv num d this sp ms) = concat (map spec_chunks pieces)"
    "failure (createMessage2 conv num d this sp ms) = None"
    using createMessage2_stream_fulfilled [OF assms(2) assms(4)]
    by (simp_all add: process_stream2_eq process_stream1_spec)
  have ex: "concat (map spec_chunks (chunks example_stream)) = [Text ''a'', Text ''b'', Usage 5 3]"
    by (simp add: example_stream_def spec_chunks_def)
  show ?thesis using one two ex by simp
qed

theorem createMessage_stream_output_witness:
  "truthy_str (ollamaModelId (options
      (example_handler example_options (Fulfilled example_stream) NotBeforeTimer))) \<and>
   useStreaming (example_handler example_options (Fulfilled example_stream) NotBeforeTimer) \<and>
   emitted (createMessage1 example_convert
      (example_handler example_options (Fulfilled example_stream) NotBeforeTimer)
      ''sys'' [''hi'']) = [Text ''a'', Text ''b'', Usage 5 3] \<and>
   emitted (createMessage2 example_convert literal_Number example_defaults
      (example_handler example_options (Fulfilled example_stream) NotBeforeTimer)
      ''sys'' [''hi'']) = [Text ''a'', Text ''b'', Usage 5 3] \<and>
   failure (createMessage1 example_convert
      (example_handler example_options (Fulfilled example_stream) NotBeforeTimer)
      ''sys'' [''hi'']) = None \<and>
   failure (createMessage2 example_convert literal_Number example_defaults
      (example_handler example_options (Fulfilled example_stream) NotBeforeTimer)
      ''sys'' [''hi'']) = None"
proof -
  let ?h = "example_handler example_options (Fulfilled example_stream) NotBeforeTimer"
  have h1: "truthy_str (ollamaModelId (options ?h))"
    by (simp add: example_simps)
  have h2: "useStreaming ?h"
    by (simp add: example_simps)
  have h3: "chat_streaming (client ?h) (request1 example_convert ?h ''sys'' [''hi'']) =
              Fulfilled (Stream (chunks example_stream) None)"
    by (simp add: example_simps example_stream_def)
  have h4: "chat_streaming (client ?h)
              (request2 example_convert literal_Number example_defaults ?h ''sys'' [''hi''] True) =
              Fulfilled (Stream (chunks example_stream) None)"
    by (simp add: example_simps example_stream_def)
  show ?thesis
    using createMessage_stream_output [OF h1 h2 h3 h4] h1 h2 by blast
qed

subsection \<open>The timer\<close>

lemma show_seconds_30000: "show_seconds 30000 = ''30''"
  by (simp add: show_seconds_def show_thousandths_def show_nat.simps digit_char_def)

lemma js_includes_timeout_message: "js_includes (timeout_message t) ''timed out''"
  by (simp add: timeout_message_def)

lemma timeout_message_nonempty: "timeout_message t \<noteq> []"
  by (simp add: timeout_message_def)

lemma catch2_timer:
  "catch2 this (new_Error (timeout_message t)) =
     new_Error (timeout_message (int_or (requestTimeoutMs (options this)) 30000))"
  by (simp add: catch2_def new_Error_def truthy_str_def str_nullish_def
      js_includes_timeout_message timeout_message_nonempty)

text \<open>
  Claim C2, evaluated where it fails. Variant 2 with no \<open>requestTimeoutMs\<close> configured
  starts a timer of 60000 ms; when the request is not settled by then, nothing is emitted
  and the error thrown says 30 seconds.
\<close>

theorem createMessage2_default_timeout_text:
  "effects (createMessage2 example_convert literal_Number example_defaults
      (example_handler example_options NotBeforeTimer NotBeforeTimer) ''sys'' [''hi'']) =
     [SetTimeout 60000,
      Chat \<lparr>model = ''llama3'',
            messages = [\<lparr>role = ''system'', content = ''sys''\<rparr>,
                        \<lparr>role = ''user'', content = ''hi''\<rparr>],
            stream = True, num_ctx = Some (Num 32768)\<rparr>] \<and>
   emitted (createMessage2 example_convert literal_Number example_defaults
      (example_handler example_options NotBeforeTimer NotBeforeTimer) ''sys'' [''hi'']) = [] \<and>
   failure (createMessage2 example_convert literal_Number example_defaults
      (example_handler example_options NotBeforeTimer NotBeforeTimer) ''sys'' [''hi'']) =
     Some (new_Error ''Ollama request timed out after 30 seconds'')"
proof -
  let ?h = "example_handler example_options NotBeforeTimer NotBeforeTimer"
  let ?r = "createMessage2 example_convert literal_Number example_defaults ?h ''sys'' [''hi'']"
  have e: "effects ?r =
     [SetTimeout 60000,
      Chat \<lparr>model = ''llama3'',
            messages = [\<lparr>role = ''system'', content = ''sys''\<rparr>,
                        \<lparr>role = ''user'', content = ''hi''\<rparr>],
            stream = True, num_ctx = Some (Num 32768)\<rparr>]"
    by (simp add: createMessage2_effects example_simps int_or_def request2_def getModel2_def
        str_or_def Number_opt_def num_or_def ollamaMessages_def)
  have "failure ?r = Some (catch2 ?h (new_Error (timeout_message 60000)))"
    and m: "emitted ?r = []"
    by (simp_all add: createMessage2_def Let_def race_def example_simps int_or_def)
  then have f: "failure ?r = Some (new_Error (timeout_message 30000))"
    by (simp add: catch2_timer example_simps int_or_def)
  have "timeout_message 30000 = ''Ollama request timed out after 30 seconds''"
    by (simp add: timeout_message_def show_seconds_30000)
  with e m f show ?thesis by simp
qed

text \<open>
  Around claim C2. In variant 1 the timer's error passes through the handler of the
  request's failures and reaches the caller as an API error that quotes it; with no
  \<open>requestTimeoutMs\<close> configured it states the 30 seconds of that variant's timer. In
  variant 2 a configured budget other than zero is stated as it is.
\<close>

lemma catch1_new_Error:
  "catch1 this (new_Error m) = new_Error (''Ollama API error (unknown): '' @ m)"
  by (simp add: catch1_def Let_def new_Error_def truthy_str_def str_nullish_def)

lemma createMessage1_default_timeout_text:
  "effects (createMessage1 example_convert
      (example_handler example_options NotBeforeTimer NotBeforeTimer) ''sys'' [''hi'']) =
     [SetTimeout 30000,
      Chat \<lparr>model = ''llama3'',
            messages = [\<lparr>role = ''system'', content = ''sys''\<rparr>,
                        \<lparr>role = ''user'', content = ''hi''\<rparr>],
            stream = True, num_ctx = None\<rparr>] \<and>
   emitted (createMessage1 example_convert
      (example_handler example_options NotBeforeTimer NotBeforeTimer) ''sys'' [''hi'']) = [] \<and>
   failure (createMessage1 example_convert
      (example_handler example_options NotBeforeTimer NotBeforeTimer) ''sys'' [''hi'']) =
     Some (new_Error
       ''Ollama API error (unknown): Ollama request timed out after 30 seconds'')"
proof -
  have t: "timeout_message 30000 = ''Ollama request timed out after 30 seconds''"
    by (simp add: timeout_message_def show_seconds_30000)
  show ?thesis
    unfolding createMessage1_def Let_def race_def
    by (simp add: example_simps int_nullish_def request1_def str_nullish_def
        ollamaMessages_def t catch1_new_Error)
qed

lemma createMessage2_configured_timeout_text:
  assumes "requestTimeoutMs (options this) = Some t"
    and "t \<noteq> 0"
    and "if useStreaming this
         then chat_streaming (client this) (request2 conv num d this sp ms True) = NotBeforeTimer
         else chat_single (client this) (request2 conv num d this sp ms False) = NotBeforeTimer"
  shows "effects (createMessage2 conv num d this sp ms) =
           [SetTimeout t, Chat (request2 conv num d this sp ms (useStreaming this))] \<and>
         emitted (createMessage2 conv num d this sp ms) = [] \<and>
         failure (createMessage2 conv num d this sp ms) = Some (new_Error (timeout_message t))"
proof -
  have i: "int_or (requestTimeoutMs (options this)) 60000 = t"
    "int_or (requestTimeoutMs (options this)) 30000 = t"
    using assms(1) assms(2) by (simp_all add: int_or_def)
  have e: "effects (createMessage2 conv num d this sp ms) =
      [SetTimeout t, Chat (request2 conv num d this sp ms (useStreaming this))]"
    by (simp add: createMessage2_effects i)
  have f: "emitted (createMessage2 conv num d this sp ms) = [] \<and>
      failure (createMessage2 conv num d this sp ms) =
        Some (catch2 this (new_Error (timeout_message t)))"
    using assms(3) by (cases "useStreaming this") (simp_all add: createMessage2_def Let_def race_def i)
  from e f show ?thesis by (simp add: catch2_timer i)
qed

subsection \<open>The model id\<close>

text \<open>
  Claim C3. When no model id is configured, variant 1 throws the error "Ollama model id is
  required" with no timer started and no request made, while variant 2 starts its timer
  and calls the transport with the empty string as the model.
\<close>

theorem createMessage_without_model_id:
  assumes "ollamaModelId (options this) = None"
  shows "createMessage1 conv this sp ms =
           \<lparr>effects = [], emitted = [],
            failure = Some (new_Error ''Ollama model id is required'')\<rparr> \<and>
         chat_requests (effects (createMessage2 conv num d this sp ms)) =
           [request2 conv num d this sp ms (useStreaming this)] \<and>
         model (request2 conv num d this sp ms (useStreaming this)) = []"
  using assms
  by (simp add: createMessage1_no_model truthy_str_def createMessage2_effects request2_def
      getModel2_def str_or_def)

theorem createMessage_without_model_id_witness:
  "ollamaModelId (options (example_handler options_without_model NotBeforeTimer NotBeforeTimer)) =
     None \<and>
   createMessage1 example_convert
     (example_handler options_without_model NotBeforeTimer NotBeforeTimer) ''sys'' [''hi''] =
     \<lparr>effects = [], emitted = [], failure = Some (new_Error ''Ollama model id is required'')\<rparr> \<and>
   map model (chat_requests (effects (createMessage2 example_convert literal_Number example_defaults
     (example_handler options_without_model NotBeforeTimer NotBeforeTimer) ''sys'' [''hi'']))) =
     [[]]"
proof -
  let ?h = "example_handler options_without_model NotBeforeTimer NotBeforeTimer"
  have h: "ollamaModelId (options ?h) = None"
    by (simp add: example_simps options_without_model_def)
  show ?thesis
    using createMessage_without_model_id
      [OF h, of example_convert "''sys''" "[''hi'']" literal_Number example_defaults] h
    by simp
qed

subsection \<open>The messages sent\<close>

text \<open>
  Claim C8. Every request that a call passes to the transport client carries the message
  list made of one system message with the system prompt, followed by the converter's
  result on the input messages. Variant 2 always makes exactly one request; variant 1
  makes exactly one when a model id is configured and none otherwise.
\<close>

theorem createMessage_messages_sent:
  "map messages (chat_requests (effects (createMessage2 conv num d this sp ms))) =
     [\<lparr>role = ''system'', content = sp\<rparr> # conv ms] \<and>
   map messages (chat_requests (effects (createMessage1 conv this sp ms))) =
     (if truthy_str (ollamaModelId (options this))
      then [\<lparr>role = ''system'', content = sp\<rparr> # conv ms] else [])"
proof -
  have two: "map messages (chat_requests (effects (createMessage2 conv num d this sp ms))) =
     [\<lparr>role = ''system'', content = sp\<rparr> # conv ms]"
    by (simp add: createMessage2_effects request2_def ollamaMessages_def)
  have one: "map messages (chat_requests (effects (createMessage1 conv this sp ms))) =
     (if truthy_str (ollamaModelId (options this))
      then [\<lparr>role = ''system'', content = sp\<rparr> # conv ms] else [])"
    by (simp add: createMessage1_def Let_def request1_def ollamaMessages_def split: sum.splits)
  from one two show ?thesis by simp
qed

theorem createMessage_messages_sent_witness:
  "map messages (chat_requests (effects (createMessage2 example_convert literal_Number example_defaults
      (example_handler example_options (Fulfilled example_stream) NotBeforeTimer)
      ''sys'' [''hi'', ''there'']))) =
     [[\<lparr>role = ''system'', content = ''sys''\<rparr>, \<lparr>role = ''user'', content = ''hi''\<rparr>,
       \<lparr>role = ''user'', content = ''there''\<rparr>]] \<and>
   map messages (chat_requests (effects (createMessage1 example_convert
      (example_handler example_options (Fulfilled example_stream) NotBeforeTimer)
      ''sys'' [''hi'', ''there'']))) =
     [[\<lparr>role = ''system'', content = ''sys''\<rparr>, \<lparr>role = ''user'', content = ''hi''\<rparr>,
       \<lparr>role = ''user'', content = ''there''\<rparr>]]"
  using createMessage_messages_sent [of example_convert literal_Number example_defaults
      "example_handler example_options (Fulfilled example_stream) NotBeforeTimer"
      "''sys''" "[''hi'', ''there'']"]
  by (simp add: example_simps)

subsection \<open>The model descriptor\<close>

text \<open>
  Claim C9. The descriptor that \<open>getModel\<close> returns is determined by the configuration:
  two calls on handlers with equal configuration return equal descriptors, whatever else
  differs between the calls.
\<close>

theorem getModel_deterministic:
  assumes "options this = options that"
  shows "getModel1 num d this = getModel1 num d that \<and> getModel2 num d this = getModel2 num d that"
  using assms by (simp add: getModel1_def getModel2_def)

theorem getModel_deterministic_witness:
  "options (example_handler example_options (Fulfilled example_stream) NotBeforeTimer) =
     options (example_handler example_options NotBeforeTimer NotBeforeTimer) \<and>
   getModel1 literal_Number example_defaults
     (example_handler example_options (Fulfilled example_stream) NotBeforeTimer) =
   getModel1 literal_Number example_defaults (example_handler example_options NotBeforeTimer NotBeforeTimer) \<and>
   getModel2 literal_Number example_defaults
     (example_handler example_options (Fulfilled example_stream) NotBeforeTimer) =
   getModel2 literal_Number example_defaults (example_handler example_options NotBeforeTimer NotBeforeTimer)"
proof -
  have h: "options (example_handler example_options (Fulfilled example_stream) NotBeforeTimer) =
     options (example_handler example_options NotBeforeTimer NotBeforeTimer)"
    by (simp add: example_handler_def)
  show ?thesis using getModel_deterministic [OF h, of literal_Number example_defaults] h by simp
qed

subsection \<open>One piece, two chunks\<close>

text \<open>
  Claim C10. A piece whose content is a string, the empty string included, and which
  reports at least one counter makes the handler emit a text chunk and right after it the
  usage chunk: in the loop of variant 1, in the loop of variant 2, and on the single
  response of variant 2 in non-streaming mode.
\<close>

theorem string_piece_with_counter:
  assumes "message_content piece = Some s"
    and "eval_count piece \<noteq> None \<or> prompt_eval_count piece \<noteq> None"
    and "truthy_str (ollamaModelId (options this))"
    and "useStreaming this"
    and "chat_streaming (client this) (request1 conv this sp ms) =
           Fulfilled (Stream (before @ piece # after) f)"
    and "chat_streaming (client this) (request2 conv num d this sp ms True) =
           Fulfilled (Stream (before @ piece # after) f)"
    and "\<not> useStreaming that"
    and "chat_single (client that) (request2 conv num d that sp ms False) = Fulfilled piece"
  shows "emitted (createMessage1 conv this sp ms) =
           process_stream1 before @
           [Text s, Usage (int_nullish (prompt_eval_count piece) 0)
                          (int_nullish (eval_count piece) 0)] @
           process_stream1 after \<and>
         emitted (createMessage2 conv num d this sp ms) =
           process_stream2 before @
           [Text s, Usage (int_nullish (prompt_eval_count piece) 0)
                          (int_nullish (eval_count piece) 0)] @
           process_stream2 after \<and>
         emitted (createMessage2 conv num d that sp ms) =
           [Text s, Usage (int_nullish (prompt_eval_count piece) 0)
                          (int_nullish (eval_count piece) 0)]"
proof -
  let ?two = "[Text s, Usage (int_nullish (prompt_eval_count piece) 0)
                             (int_nullish (eval_count piece) 0)]"
  have y: "yield_chunk1 piece = ?two"
    using assms(1) assms(2) by (auto simp add: yield_chunk1_def)
  have one: "emitted (createMessage1 conv this sp ms) =
      process_stream1 before @ ?two @ process_stream1 after"
    using createMessage1_fulfilled [OF assms(3) assms(5)] y
    by (simp add: process_stream1_append)
  have two: "emitted (createMessage2 conv num d this sp ms) =
      process_stream2 before @ ?two @ process_stream2 after"
    using createMessage2_stream_fulfilled [OF assms(4) assms(6)] y
    by (simp add: process_stream2_eq process_stream1_append)
  have three: "emitted (createMessage2 conv num d that sp ms) = ?two"
    using createMessage2_single_fulfilled [OF assms(7) assms(8)] y
    by (simp add: yield_chunk2_eq)
  from one two three show ?thesis by blast
qed

theorem string_piece_with_counter_witness:
  "message_content empty_piece = Some [] \<and>
   eval_count empty_piece = Some 7 \<and>
   prompt_eval_count empty_piece = None \<and>
   useStreaming (example_handler example_options (Fulfilled (Stream [empty_piece] None))
      NotBeforeTimer) \<and>
   \<not> useStreaming (example_handler options_single NotBeforeTimer (Fulfilled empty_piece)) \<and>
   emitted (createMessage1 example_convert
      (example_handler example_options (Fulfilled (Stream [empty_piece] None)) NotBeforeTimer)
      ''sys'' [''hi'']) = [Text [], Usage 0 7] \<and>
   emitted (createMessage2 example_convert literal_Number example_defaults
      (example_handler example_options (Fulfilled (Stream [empty_piece] None)) NotBeforeTimer)
      ''sys'' [''hi'']) = [Text [], Usage 0 7] \<and>
   emitted (createMessage2 example_convert literal_Number example_defaults
      (example_handler options_single NotBeforeTimer (Fulfilled empty_piece))
      ''sys'' [''hi'']) = [Text [], Usage 0 7]"
proof -
  let ?hs = "example_handler example_options (Fulfilled (Stream [empty_piece] None))
      NotBeforeTimer"
  let ?hn = "example_handler options_single NotBeforeTimer (Fulfilled empty_piece)"
  have h1: "message_content empty_piece = Some []"
    by (simp add: empty_piece_def)
  have h2: "eval_count empty_piece \<noteq> None \<or> prompt_eval_count empty_piece \<noteq> None"
    by (simp add: empty_piece_def)
  have h3: "truthy_str (ollamaModelId (options ?hs))"
    by (simp add: example_simps)
  have h4: "useStreaming ?hs"
    by (simp add: example_simps)
  have h5: "chat_streaming (client ?hs) (request1 example_convert ?hs ''sys'' [''hi'']) =
      Fulfilled (Stream ([] @ empty_piece # []) None)"
    by (simp add: example_simps)
  have h6: "chat_streaming (client ?hs)
      (request2 example_convert literal_Number example_defaults ?hs ''sys'' [''hi''] True) =
      Fulfilled (Stream ([] @ empty_piece # []) None)"
    by (simp add: example_simps)
  have h7: "\<not> useStreaming ?hn"
    by (simp add: example_simps options_single_def)
  have h8: "chat_single (client ?hn)
      (request2 example_convert literal_Number example_defaults ?hn ''sys'' [''hi''] False) =
      Fulfilled empty_piece"
    by (simp add: example_simps)
  have e: "eval_count empty_piece = Some 7" "prompt_eval_count empty_piece = None"
    by (simp_all add: empty_piece_def)
  show ?thesis
    using string_piece_with_counter [OF h1 h2 h3 h4 h5 h6 h7 h8] h1 e h4 h7
    by (simp add: int_nullish_def)
qed

subsection \<open>Non-streaming mode\<close>

text \<open>
  Claim C6. In variant 2 with streaming turned off, a call whose request is fulfilled
  emits one text chunk when the content of the response is a string and none otherwise,
  followed by one usage chunk when the response reports a counter and none otherwise,
  and it ends without an error.
\<close>

theorem createMessage2_single_output:
  assumes "\<not> useStreaming this"
    and "chat_single (client this) (request2 conv num d this sp ms False) = Fulfilled response"
  shows "failure (createMessage2 conv num d this sp ms) = None \<and>
         emitted (createMessage2 conv num d this sp ms) =
           (case message_content response of None \<Rightarrow> [] | Some s \<Rightarrow> [Text s]) @
           (if eval_count response = None \<and> prompt_eval_count response = None then []
            else [Usage (int_nullish (prompt_eval_count response) 0)
                        (int_nullish (eval_count response) 0)]) \<and>
         length (emitted (createMessage2 conv num d this sp ms)) \<le> 2"
  using createMessage2_single_fulfilled [OF assms]
  by (simp add: yield_chunk2_eq yield_chunk1_def split: option.splits)

theorem createMessage2_single_output_witness:
  "\<not> useStreaming (example_handler options_single NotBeforeTimer
        (Fulfilled \<lparr>message_content = Some ''done'', eval_count = Some 3,
                     prompt_eval_count = Some 5\<rparr>)) \<and>
   failure (createMessage2 example_convert literal_Number example_defaults
      (example_handler options_single NotBeforeTimer
        (Fulfilled \<lparr>message_content = Some ''done'', eval_count = Some 3,
                     prompt_eval_count = Some 5\<rparr>)) ''sys'' [''hi'']) = None \<and>
   emitted (createMessage2 example_convert literal_Number example_defaults
      (example_handler options_single NotBeforeTimer
        (Fulfilled \<lparr>message_content = Some ''done'', eval_count = Some 3,
                     prompt_eval_count = Some 5\<rparr>)) ''sys'' [''hi'']) =
     [Text ''done'', Usage 5 3]"
proof -
  let ?r = "\<lparr>message_content = Some ''done'', eval_count = Some 3, prompt_eval_count = Some 5\<rparr>"
  let ?h = "example_handler options_single NotBeforeTimer (Fulfilled ?r)"
  have h1: "\<not> useStreaming ?h"
    by (simp add: example_simps options_single_def)
  have h2: "chat_single (client ?h)
      (request2 example_convert literal_Number example_defaults ?h ''sys'' [''hi''] False) = Fulfilled ?r"
    by (simp add: example_simps)
  show ?thesis
    using createMessage2_single_output [OF h1 h2] h1
    by (simp add: int_nullish_def)
qed

subsection \<open>Texts that contain a text\<close>

lemma starts_with_append: "starts_with (p @ s) p"
  by (induction p) simp_all

lemma js_includes_prefix: "js_includes (p @ s) p"
proof (cases "p @ s")
  case Nil
  then show ?thesis by simp
next
  case (Cons c cs)
  have "starts_with (p @ s) p" by (rule starts_with_append)
  with Cons show ?thesis by simp
qed

lemma js_includes_append_left: "js_includes s p \<Longrightarrow> js_includes (a @ s) p"
  by (induction a) simp_all

lemma js_includes_middle: "js_includes (a @ p @ b) p"
  by (rule js_includes_append_left) (rule js_includes_prefix)

lemma js_includes_wrapped:
  "js_includes (''Ollama stream processing error: '' @ m) ''timed out'' =
     js_includes m ''timed out''"
  by simp

lemma js_includes_str_or:
  "js_includes (str_or x ''Unknown error'') ''timed out'' =
     js_includes (str_nullish x []) ''timed out''"
  by (simp add: str_or_def str_nullish_def split: option.splits)

lemma catch2_other:
  "\<not> js_includes (str_nullish (err_message e) []) ''timed out'' \<Longrightarrow> catch2 this e = e"
  by (simp add: catch2_def)

lemma str_nullish_Some: "str_nullish (Some x) d = x"
  by (simp add: str_nullish_def)

lemma catch2_stream_catch2:
  assumes "\<not> js_includes (str_nullish (err_message e) []) ''timed out''"
  shows "catch2 this (stream_catch2 e) = stream_catch2 e"
proof -
  have "err_message (stream_catch2 e) =
      Some (''Ollama stream processing error: '' @ str_or (err_message e) ''Unknown error'')"
    by (simp add: stream_catch2_def new_Error_def)
  then have "js_includes (str_nullish (err_message (stream_catch2 e)) []) ''timed out'' =
      js_includes (str_nullish (err_message e) []) ''timed out''"
    by (simp only: str_nullish_Some js_includes_wrapped js_includes_str_or)
  with assms have "\<not> js_includes (str_nullish (err_message (stream_catch2 e)) []) ''timed out''"
    by blast
  then show ?thesis by (rule catch2_other)
qed

subsection \<open>Failures of the request\<close>

text \<open>
  Claim C4, as it fails: in variant 2 a refused connection reaches the caller as the
  transport's own error, whose message is the generic text and names neither the host nor
  the code.
\<close>

theorem createMessage2_refused_counterexample:
  "err_code (case err_cause refused of Some c \<Rightarrow> c | None \<Rightarrow> refused) = Some ''ECONNREFUSED'' \<and>
   failure (createMessage2 example_convert literal_Number example_defaults
      (example_handler example_options (Rejected refused) (Rejected refused))
      ''sys'' [''hi'']) = Some refused \<and>
   err_message refused = Some ''fetch failed'' \<and>
   \<not> js_includes ''fetch failed'' ''http://localhost:11434'' \<and>
   \<not> js_includes ''fetch failed'' ''ECONNREFUSED''"
proof -
  let ?h = "example_handler example_options (Rejected refused) (Rejected refused)"
  have s: "useStreaming ?h"
    by (simp add: example_simps)
  have r: "chat_streaming (client ?h)
      (request2 example_convert literal_Number example_defaults ?h ''sys'' [''hi''] True) = Rejected refused"
    by (simp add: example_simps)
  have n: "\<not> js_includes (str_nullish (err_message refused) []) ''timed out''"
    by (simp add: refused_def str_nullish_def)
  have "failure (createMessage2 example_convert literal_Number example_defaults ?h ''sys'' [''hi'']) =
      Some refused"
    using createMessage2_stream_rejected [OF s r] catch2_other [OF n] by simp
  moreover have "err_code (case err_cause refused of Some c \<Rightarrow> c | None \<Rightarrow> refused) =
      Some ''ECONNREFUSED''"
    by (simp add: refused_def)
  moreover have "err_message refused = Some ''fetch failed''"
    by (simp add: refused_def)
  moreover have "\<not> js_includes ''fetch failed'' ''http://localhost:11434''"
    by simp
  moreover have "\<not> js_includes ''fetch failed'' ''ECONNREFUSED''"
    by simp
  ultimately show ?thesis by blast
qed

text \<open>
  Claim C4, amended. In variant 1, when the request is rejected with an error whose cause
  (the error itself when it has no cause) carries a non-empty code, the call emits nothing
  and throws an error whose message is "Could not reach Ollama at", the configured base
  URL (or http://localhost:11434), a dash, the code, and the message of the cause; the
  message thus contains the URL and the code. In variant 2 the rejected request's error is
  thrown as it is, provided its message does not contain "timed out".
\<close>

theorem createMessage_request_rejected:
  assumes "truthy_str (ollamaModelId (options this))"
    and "chat_streaming (client this) (request1 conv this sp ms) = Rejected err"
    and "cause = (case err_cause err of Some c \<Rightarrow> c | None \<Rightarrow> err)"
    and "err_code cause = Some code"
    and "code \<noteq> []"
    and "url = str_nullish (ollamaBaseUrl (options this)) ''http://localhost:11434''"
    and "text = ''Could not reach Ollama at '' @ url @ '' '' @ dash @ '' '' @ code @ '': '' @
                str_nullish (err_message cause) (err_text cause)"
    and "if useStreaming this
         then chat_streaming (client this) (request2 conv num d this sp ms True) = Rejected err
         else chat_single (client this) (request2 conv num d this sp ms False) = Rejected err"
  shows "failure (createMessage1 conv this sp ms) = Some (new_Error text) \<and>
         emitted (createMessage1 conv this sp ms) = [] \<and>
         js_includes text url \<and> js_includes text code \<and>
         (\<not> js_includes (str_nullish (err_message err) []) ''timed out'' \<longrightarrow>
            failure (createMessage2 conv num d this sp ms) = Some err \<and>
            emitted (createMessage2 conv num d this sp ms) = [])"
proof -
  have c: "catch1 this err = new_Error text"
    using assms(3-7) by (simp add: catch1_def Let_def truthy_str_def str_nullish_def)
  have one: "failure (createMessage1 conv this sp ms) = Some (new_Error text)"
    "emitted (createMessage1 conv this sp ms) = []"
    using createMessage1_rejected [OF assms(1) assms(2)] c by simp_all
  have u: "js_includes text url"
    unfolding assms(7) by (rule js_includes_middle)
  have "text = (''Could not reach Ollama at '' @ url @ '' '' @ dash @ '' '') @ code @
      ('': '' @ str_nullish (err_message cause) (err_text cause))"
    unfolding assms(7) by simp
  then have k: "js_includes text code"
    using js_includes_middle by metis
  have two: "failure (createMessage2 conv num d this sp ms) = Some err \<and>
      emitted (createMessage2 conv num d this sp ms) = []"
    if n: "\<not> js_includes (str_nullish (err_message err) []) ''timed out''"
  proof (cases "useStreaming this")
    case True
    with assms(8) have "chat_streaming (client this) (request2 conv num d this sp ms True) =
        Rejected err" by simp
    from createMessage2_stream_rejected [OF True this] catch2_other [OF n]
    show ?thesis by simp
  next
    case False
    with assms(8) have "chat_single (client this) (request2 conv num d this sp ms False) =
        Rejected err" by simp
    from createMessage2_single_rejected [OF False this] catch2_other [OF n]
    show ?thesis by simp
  qed
  from one u k two show ?thesis by blast
qed

theorem createMessage_request_rejected_witness:
  "truthy_str (ollamaModelId (options
      (example_handler example_options (Rejected refused) (Rejected refused)))) \<and>
   \<not> js_includes (str_nullish (err_message refused) []) ''timed out'' \<and>
   failure (createMessage1 example_convert
      (example_handler example_options (Rejected refused) (Rejected refused))
      ''sys'' [''hi'']) =
     Some (new_Error (''Could not reach Ollama at http://localhost:11434 '' @ dash @
        '' ECONNREFUSED: connect ECONNREFUSED 127.0.0.1:11434'')) \<and>
   failure (createMessage2 example_convert literal_Number example_defaults
      (example_handler example_options (Rejected refused) (Rejected refused))
      ''sys'' [''hi'']) = Some refused"
proof -
  let ?h = "example_handler example_options (Rejected refused) (Rejected refused)"
  let ?c = "JsError (Some ''connect ECONNREFUSED 127.0.0.1:11434'') (Some ''ECONNREFUSED'')
                None None None ''Error: connect ECONNREFUSED 127.0.0.1:11434''"
  let ?t = "''Could not reach Ollama at '' @ ''http://localhost:11434'' @ '' '' @ dash @ '' '' @
      ''ECONNREFUSED'' @ '': '' @ str_nullish (err_message ?c) (err_text ?c)"
  have h1: "truthy_str (ollamaModelId (options ?h))"
    by (simp add: example_simps)
  have h2: "chat_streaming (client ?h) (request1 example_convert ?h ''sys'' [''hi'']) =
      Rejected refused"
    by (simp add: example_simps)
  have h3: "?c = (case err_cause refused of Some c \<Rightarrow> c | None \<Rightarrow> refused)"
    by (simp add: refused_def)
  have h4: "err_code ?c = Some ''ECONNREFUSED''"
    by simp
  have h5: "''ECONNREFUSED'' \<noteq> []"
    by simp
  have h6: "''http://localhost:11434'' =
      str_nullish (ollamaBaseUrl (options ?h)) ''http://localhost:11434''"
    by (simp add: example_simps str_nullish_def)
  have h7: "?t = ?t"
    by (rule refl)
  have h8: "if useStreaming ?h
      then chat_streaming (client ?h)
             (request2 example_convert literal_Number example_defaults ?h ''sys'' [''hi''] True) =
           Rejected refused
      else chat_single (client ?h)
             (request2 example_convert literal_Number example_defaults ?h ''sys'' [''hi''] False) =
           Rejected refused"
    by (simp add: example_simps)
  have n: "\<not> js_includes (str_nullish (err_message refused) []) ''timed out''"
    by (simp add: refused_def str_nullish_def)
  have t: "?t = ''Could not reach Ollama at http://localhost:11434 '' @ dash @
        '' ECONNREFUSED: connect ECONNREFUSED 127.0.0.1:11434''"
    by (simp add: str_nullish_def)
  show ?thesis
    using createMessage_request_rejected [OF h1 h2 h3 h4 h5 h6 h7 h8] h1 n
    unfolding t by blast
qed

subsection \<open>The context window\<close>

lemmas literal_Number_simps =
  literal_Number_def trim_def is_space_def short_digits_def is_digit_def dec_value_def
  digit_val_def

lemma literal_Number_131072: "literal_Number ''131072'' = Num 131072"
  by (simp add: literal_Number_simps)

lemma literal_Number_minus_5: "literal_Number ''-5'' = Num (- 5)"
  by (simp add: literal_Number_simps)

lemma literal_Number_abc: "literal_Number ''abc'' = NaN"
  by (simp add: literal_Number_simps)

lemma getModel_info_eq: "info (getModel2 num d this) = info (getModel1 num d this)"
  by (simp add: getModel1_def getModel2_def)

lemma getModel1_contextWindow_set:
  "ollamaApiOptionsCtxNum (options this) = Some s \<Longrightarrow> s \<noteq> [] \<Longrightarrow>
   contextWindow (info (getModel1 num d this)) = num_or (num s) (Num 32768)"
  by (simp add: getModel1_def truthy_str_def Number_opt_def)

lemma getModel1_info_unset:
  "ollamaApiOptionsCtxNum (options this) = None \<or>
   ollamaApiOptionsCtxNum (options this) = Some [] \<Longrightarrow>
   info (getModel1 num d this) = d"
  by (auto simp add: getModel1_def truthy_str_def)

lemma num_or_truthy: "n \<noteq> NaN \<Longrightarrow> n \<noteq> Num 0 \<Longrightarrow> num_or n d = n"
  by (cases n) (simp_all add: num_or_def)

lemma num_or_falsy: "n = NaN \<or> n = Num 0 \<Longrightarrow> num_or n d = d"
  by (auto simp add: num_or_def)

text \<open>
  Claim C5, as it fails: a context size of "-5" is set, and \<^verbatim>\<open>Number\<close> reads it as -5,
  which is not a positive number; yet both variants return -5 as the context window,
  which is neither the window of the defaults nor 32768.
\<close>

theorem getModel_negative_override_counterexample:
  "ollamaApiOptionsCtxNum (options (handler_with_ctx ''-5'')) = Some ''-5'' \<and>
   literal_Number ''-5'' = Num (- 5) \<and>
   contextWindow (info (getModel1 literal_Number example_defaults (handler_with_ctx ''-5''))) =
     Num (- 5) \<and>
   contextWindow (info (getModel2 literal_Number example_defaults (handler_with_ctx ''-5''))) =
     Num (- 5) \<and>
   contextWindow example_defaults = Num 128000"
proof -
  have c: "ollamaApiOptionsCtxNum (options (handler_with_ctx ''-5'')) = Some ''-5''"
    by (simp add: handler_with_ctx_def options_with_ctx_def example_handler_def)
  have "contextWindow (info (getModel1 literal_Number example_defaults
      (handler_with_ctx ''-5''))) = Num (- 5)"
    using getModel1_contextWindow_set [OF c, of literal_Number]
    by (simp add: literal_Number_minus_5 num_or_def)
  then show ?thesis
    using c by (simp add: getModel_info_eq literal_Number_minus_5 example_defaults_def)
qed

text \<open>
  Claim C5, amended. Whatever function \<^verbatim>\<open>Number\<close> is, in both variants: when the
  context-size override is set and not empty and \<^verbatim>\<open>Number\<close> reads it as a value other
  than \<open>NaN\<close> and zero, \<open>info.contextWindow\<close> is that value (so "131072", read as
  131072, gives 131072, and a negative number is used as it is); when it is set and not
  empty and is read as \<open>NaN\<close> or zero, the window is 32768; when it is unset or empty,
  \<open>info\<close> is the defaults record unchanged.
\<close>

theorem getModel_contextWindow:
  "(ollamaApiOptionsCtxNum (options this) = Some s \<and> s \<noteq> [] \<and>
      num s \<noteq> NaN \<and> num s \<noteq> Num 0 \<longrightarrow>
      contextWindow (info (getModel1 num d this)) = num s \<and>
      contextWindow (info (getModel2 num d this)) = num s) \<and>
   (ollamaApiOptionsCtxNum (options this) = Some s \<and> s \<noteq> [] \<and>
      (num s = NaN \<or> num s = Num 0) \<longrightarrow>
      contextWindow (info (getModel1 num d this)) = Num 32768 \<and>
      contextWindow (info (getModel2 num d this)) = Num 32768) \<and>
   (ollamaApiOptionsCtxNum (options this) = None \<or>
      ollamaApiOptionsCtxNum (options this) = Some [] \<longrightarrow>
      info (getModel1 num d this) = d \<and> info (getModel2 num d this) = d) \<and>
   (ollamaApiOptionsCtxNum (options this) = Some ''131072'' \<and>
      num ''131072'' = Num 131072 \<longrightarrow>
      contextWindow (info (getModel1 num d this)) = Num 131072 \<and>
      contextWindow (info (getModel2 num d this)) = Num 131072)"
proof -
  have a: "contextWindow (info (getModel1 num d this)) = num s"
    if "ollamaApiOptionsCtxNum (options this) = Some s" "s \<noteq> []"
      "num s \<noteq> NaN" "num s \<noteq> Num 0"
    using getModel1_contextWindow_set [OF that(1) that(2), of num d]
      num_or_truthy [OF that(3) that(4), of "Num 32768"]
    by simp
  have b: "contextWindow (info (getModel1 num d this)) = Num 32768"
    if "ollamaApiOptionsCtxNum (options this) = Some s" "s \<noteq> []"
      "num s = NaN \<or> num s = Num 0"
    using getModel1_contextWindow_set [OF that(1) that(2), of num d]
      num_or_falsy [OF that(3), of "Num 32768"]
    by simp
  have c: "info (getModel1 num d this) = d"
    if "ollamaApiOptionsCtxNum (options this) = None \<or>
        ollamaApiOptionsCtxNum (options this) = Some []"
    using that by (rule getModel1_info_unset)
  have e: "contextWindow (info (getModel1 num d this)) = Num 131072"
    if "ollamaApiOptionsCtxNum (options this) = Some ''131072''" "num ''131072'' = Num 131072"
    using getModel1_contextWindow_set [OF that(1), of num d] that(2)
    by (simp add: num_or_def)
  from a b c e show ?thesis
    unfolding getModel_info_eq by blast
qed

theorem getModel_contextWindow_witness:
  "ollamaApiOptionsCtxNum (options (handler_with_ctx ''131072'')) = Some ''131072'' \<and>
   literal_Number ''131072'' = Num 131072 \<and>
   contextWindow (info (getModel1 literal_Number example_defaults
     (handler_with_ctx ''131072''))) = Num 131072 \<and>
   contextWindow (info (getModel2 literal_Number example_defaults
     (handler_with_ctx ''131072''))) = Num 131072 \<and>
   ollamaApiOptionsCtxNum (options (handler_with_ctx ''abc'')) = Some ''abc'' \<and>
   literal_Number ''abc'' = NaN \<and>
   contextWindow (info (getModel1 literal_Number example_defaults
     (handler_with_ctx ''abc''))) = Num 32768 \<and>
   contextWindow (info (getModel2 literal_Number example_defaults
     (handler_with_ctx ''abc''))) = Num 32768 \<and>
   ollamaApiOptionsCtxNum
     (options (example_handler example_options NotBeforeTimer NotBeforeTimer)) = None \<and>
   info (getModel1 literal_Number example_defaults
     (example_handler example_options NotBeforeTimer NotBeforeTimer)) = example_defaults \<and>
   info (getModel2 literal_Number example_defaults
     (example_handler example_options NotBeforeTimer NotBeforeTimer)) = example_defaults"
proof -
  have c1: "ollamaApiOptionsCtxNum (options (handler_with_ctx ''131072'')) = Some ''131072''"
    by (simp add: handler_with_ctx_def options_with_ctx_def example_handler_def)
  have c2: "ollamaApiOptionsCtxNum (options (handler_with_ctx ''abc'')) = Some ''abc''"
    by (simp add: handler_with_ctx_def options_with_ctx_def example_handler_def)
  have c3: "ollamaApiOptionsCtxNum
     (options (example_handler example_options NotBeforeTimer NotBeforeTimer)) = None"
    by (simp add: example_handler_def example_options_def)
  have n1: "''131072'' \<noteq> []" and n2: "''abc'' \<noteq> []"
    by simp_all
  have n3: "literal_Number ''131072'' \<noteq> NaN" "literal_Number ''131072'' \<noteq> Num 0"
    by (simp_all add: literal_Number_131072)
  from getModel_contextWindow
    [of "handler_with_ctx ''131072''" "''131072''" literal_Number example_defaults]
    c1 n1 n3
  have w1: "contextWindow (info (getModel1 literal_Number example_defaults
      (handler_with_ctx ''131072''))) = Num 131072 \<and>
    contextWindow (info (getModel2 literal_Number example_defaults
      (handler_with_ctx ''131072''))) = Num 131072"
    unfolding literal_Number_131072 by blast
  from getModel_contextWindow
    [of "handler_with_ctx ''abc''" "''abc''" literal_Number example_defaults]
    c2 n2 literal_Number_abc
  have w2: "contextWindow (info (getModel1 literal_Number example_defaults
      (handler_with_ctx ''abc''))) = Num 32768 \<and>
    contextWindow (info (getModel2 literal_Number example_defaults
      (handler_with_ctx ''abc''))) = Num 32768"
    by blast
  from getModel_contextWindow
    [of "example_handler example_options NotBeforeTimer NotBeforeTimer" "[]"
      literal_Number example_defaults]
    c3
  have w3: "info (getModel1 literal_Number example_defaults
     (example_handler example_options NotBeforeTimer NotBeforeTimer)) = example_defaults \<and>
   info (getModel2 literal_Number example_defaults
     (example_handler example_options NotBeforeTimer NotBeforeTimer)) = example_defaults"
    by blast
  from c1 c2 c3 w1 w2 w3 literal_Number_131072 literal_Number_abc show ?thesis by blast
qed

subsection \<open>Failures in the middle of a stream\<close>

text \<open>
  Claim C7, as it fails: in variant 2 a stream delivers the piece "a" and then throws an
  error whose message is "socket timed out". The text chunk is emitted, and the error that
  reaches the caller is the time-out error of the outer handler, not a stream processing
  error.
\<close>

theorem createMessage2_stalled_stream_counterexample:
  "emitted (createMessage2 example_convert literal_Number example_defaults
      (example_handler example_options (Fulfilled stalled_stream) NotBeforeTimer)
      ''sys'' [''hi'']) = [Text ''a''] \<and>
   failure (createMessage2 example_convert literal_Number example_defaults
      (example_handler example_options (Fulfilled stalled_stream) NotBeforeTimer)
      ''sys'' [''hi'']) = Some (new_Error ''Ollama request timed out after 30 seconds'') \<and>
   \<not> js_includes ''Ollama request timed out after 30 seconds'' ''stream processing error''"
proof -
  let ?h = "example_handler example_options (Fulfilled stalled_stream) NotBeforeTimer"
  let ?r = "createMessage2 example_convert literal_Number example_defaults ?h ''sys'' [''hi'']"
  have s: "useStreaming ?h"
    by (simp add: example_simps)
  have f: "chat_streaming (client ?h)
      (request2 example_convert literal_Number example_defaults ?h ''sys'' [''hi''] True) =
      Fulfilled stalled_stream"
    by (simp add: example_simps)
  have c: "catch2 ?h (stream_catch2 (new_Error ''socket timed out'')) =
      new_Error (timeout_message 30000)"
    by (simp add: catch2_def stream_catch2_def new_Error_def str_or_def str_nullish_def
        example_simps int_or_def)
  have t: "timeout_message 30000 = ''Ollama request timed out after 30 seconds''"
    by (simp add: timeout_message_def show_seconds_30000)
  have "emitted ?r = [Text ''a'']"
    using createMessage2_stream_fulfilled [OF s f]
    by (simp add: stalled_stream_def yield_chunk2_def)
  moreover have "failure ?r = Some (new_Error ''Ollama request timed out after 30 seconds'')"
    using createMessage2_stream_fulfilled [OF s f] c t
    by (simp add: stalled_stream_def)
  moreover have
    "\<not> js_includes ''Ollama request timed out after 30 seconds'' ''stream processing error''"
    by simp
  ultimately show ?thesis by blast
qed

text \<open>
  Claim C7, amended. In variant 2, when the stream throws after delivering some pieces, the
  chunks of those pieces have been emitted, and they are the first part of what the call
  emits when the stream goes on and ends without an error. When the message of the error
  does not contain "timed out", the error that reaches the caller has the message "Ollama
  stream processing error:" followed by the message of the error, or by "Unknown error"
  when that message is missing or empty.
\<close>

theorem createMessage2_stream_failure:
  assumes "useStreaming this"
    and "chat_streaming (client this) (request2 conv num d this sp ms True) =
           Fulfilled (Stream pieces (Some e))"
    and "useStreaming that"
    and "chat_streaming (client that) (request2 conv num d that sp ms True) =
           Fulfilled (Stream (pieces @ rest) None)"
  shows "emitted (createMessage2 conv num d this sp ms) = process_stream2 pieces \<and>
         emitted (createMessage2 conv num d that sp ms) =
           emitted (createMessage2 conv num d this sp ms) @ process_stream2 rest \<and>
         failure (createMessage2 conv num d that sp ms) = None \<and>
         (\<not> js_includes (str_nullish (err_message e) []) ''timed out'' \<longrightarrow>
            failure (createMessage2 conv num d this sp ms) =
              Some (new_Error (''Ollama stream processing error: '' @
                               str_or (err_message e) ''Unknown error'')))"
proof -
  note broken = createMessage2_stream_fulfilled [OF assms(1) assms(2)]
  note whole = createMessage2_stream_fulfilled [OF assms(3) assms(4)]
  have a: "emitted (createMessage2 conv num d this sp ms) = process_stream2 pieces"
    using broken by simp
  have b: "emitted (createMessage2 conv num d that sp ms) =
      emitted (createMessage2 conv num d this sp ms) @ process_stream2 rest"
    using whole a by (simp add: process_stream2_eq process_stream1_append)
  have c: "failure (createMessage2 conv num d that sp ms) = None"
    using whole by simp
  have f: "failure (createMessage2 conv num d this sp ms) =
      Some (new_Error (''Ollama stream processing error: '' @
                       str_or (err_message e) ''Unknown error''))"
    if "\<not> js_includes (str_nullish (err_message e) []) ''timed out''"
    using broken catch2_stream_catch2 [OF that, of this]
    by (simp add: stream_catch2_def del: js_includes.simps)
  from a b c f show ?thesis by blast
qed

theorem createMessage2_stream_failure_witness:
  "useStreaming (example_handler example_options (Fulfilled broken_stream) NotBeforeTimer) \<and>
   useStreaming (example_handler example_options (Fulfilled example_stream) NotBeforeTimer) \<and>
   \<not> js_includes (str_nullish (err_message (new_Error ''socket hang up'')) []) ''timed out'' \<and>
   emitted (createMessage2 example_convert literal_Number example_defaults
      (example_handler example_options (Fulfilled broken_stream) NotBeforeTimer)
      ''sys'' [''hi'']) = [Text ''a''] \<and>
   failure (createMessage2 example_convert literal_Number example_defaults
      (example_handler example_options (Fulfilled broken_stream) NotBeforeTimer)
      ''sys'' [''hi'']) =
     Some (new_Error ''Ollama stream processing error: socket hang up'') \<and>
   emitted (createMessage2 example_convert literal_Number example_defaults
      (example_handler example_options (Fulfilled example_stream) NotBeforeTimer)
      ''sys'' [''hi'']) = [Text ''a''] @ [Text ''b'', Usage 5 3]"
proof -
  let ?a = "\<lparr>message_content = Some ''a'', eval_count = None, prompt_eval_count = None\<rparr>"
  let ?rest = "[\<lparr>message_content = Some ''b'', eval_count = None, prompt_eval_count = None\<rparr>,
      \<lparr>message_content = None, eval_count = Some 3, prompt_eval_count = Some 5\<rparr>]"
  let ?hb = "example_handler example_options (Fulfilled broken_stream) NotBeforeTimer"
  let ?hw = "example_handler example_options (Fulfilled example_stream) NotBeforeTimer"
  have h1: "useStreaming ?hb"
    by (simp add: example_simps)
  have h2: "chat_streaming (client ?hb)
      (request2 example_convert literal_Number example_defaults ?hb ''sys'' [''hi''] True) =
      Fulfilled (Stream [?a] (Some (new_Error ''socket hang up'')))"
    by (simp add: example_simps broken_stream_def)
  have h3: "useStreaming ?hw"
    by (simp add: example_simps)
  have h4: "chat_streaming (client ?hw)
      (request2 example_convert literal_Number example_defaults ?hw ''sys'' [''hi''] True) =
      Fulfilled (Stream ([?a] @ ?rest) None)"
    by (simp add: example_simps example_stream_def)
  have n: "\<not> js_includes (str_nullish (err_message (new_Error ''socket hang up'')) [])
      ''timed out''"
    by (simp add: new_Error_def str_nullish_def)
  have v: "process_stream2 [?a] = [Text ''a'']" "process_stream2 ?rest = [Text ''b'', Usage 5 3]"
    "str_or (err_message (new_Error ''socket hang up'')) ''Unknown error'' = ''socket hang up''"
    by (simp_all add: yield_chunk2_def int_or_def new_Error_def str_or_def)
  show ?thesis
    using createMessage2_stream_failure [OF h1 h2 h3 h4] h1 h3 n
    unfolding v by simp
qed

end
